theory Spec2Isabelle
  imports Main "HOL-Library.Sublist"
begin

section \<open>Python strings and sequences\<close>

text \<open>
  A Python \<^verbatim>\<open>str\<close> is a sequence of Unicode code points. It is modelled as a list
  of natural numbers, one per code point, so that the Cyrillic literals of the source are
  written as their code points and \<^verbatim>\<open>len\<close>, \<^verbatim>\<open>in\<close>, \<^verbatim>\<open>strip\<close> and
  \<^verbatim>\<open>split\<close> count what Python counts.
\<close>

type_synonym pystr = "nat list"

datatype py_error = IndexError | KeyError | ZeroDivisionError

text \<open>
  The code points for which \<^verbatim>\<open>str.isspace\<close> holds; \<^verbatim>\<open>str.strip()\<close> without an
  argument removes exactly these from both ends.
\<close>

definition is_space :: "nat \<Rightarrow> bool" where
  "is_space c =
     ((9 \<le> c \<and> c \<le> 13) \<or> (28 \<le> c \<and> c \<le> 32) \<or> c = 133 \<or> c = 160 \<or> c = 5760 \<or>
      (8192 \<le> c \<and> c \<le> 8202) \<or> c = 8232 \<or> c = 8233 \<or> c = 8239 \<or> c = 8287 \<or>
      c = 12288)"

definition lstrip :: "pystr \<Rightarrow> pystr" where
  "lstrip s = dropWhile is_space s"

definition rstrip :: "pystr \<Rightarrow> pystr" where
  "rstrip s = rev (dropWhile is_space (rev s))"

definition strip :: "pystr \<Rightarrow> pystr" where
  "strip s = lstrip (rstrip s)"

text \<open>\<^verbatim>\<open>s.split("\n")[0]\<close>: the text before the first line feed (code point 10).\<close>

definition first_line :: "pystr \<Rightarrow> pystr" where
  "first_line s = takeWhile (\<lambda>c. c \<noteq> 10) s"

text \<open>\<^verbatim>\<open>sep.join(parts)\<close>.\<close>

fun join :: "pystr \<Rightarrow> pystr list \<Rightarrow> pystr" where
  "join sep [] = []"
| "join sep [p] = p"
| "join sep (p # q # ps) = p @ sep @ join sep (q # ps)"

text \<open>\<^verbatim>\<open>str(n)\<close> for a non-negative integer: its decimal digits.\<close>

fun str_of_nat :: "nat \<Rightarrow> pystr" where
  "str_of_nat n = (if n < 10 then [48 + n] else str_of_nat (n div 10) @ [48 + n mod 10])"

text \<open>
  \<^verbatim>\<open>xs[i]\<close>: a negative index counts from the end, an index outside
  \<^verbatim>\<open>-len(xs) .. len(xs)-1\<close> raises \<^verbatim>\<open>IndexError\<close>.
\<close>

definition py_index :: "'a list \<Rightarrow> int \<Rightarrow> py_error + 'a" where
  "py_index xs i =
     (if 0 \<le> i \<and> i < int (length xs) then Inr (xs ! nat i)
      else if - int (length xs) \<le> i \<and> i < 0 then Inr (xs ! nat (int (length xs) + i))
      else Inl IndexError)"

text \<open>
  \<^verbatim>\<open>xs[start:end]\<close>: each bound is first brought into \<^verbatim>\<open>0 .. len(xs)\<close> (a negative
  bound counts from the end), and the slice is empty when the bounds cross.
\<close>

definition slice_bound :: "nat \<Rightarrow> int \<Rightarrow> nat" where
  "slice_bound n i = (if i < 0 then nat (max 0 (int n + i)) else nat (min i (int n)))"

definition py_slice :: "'a list \<Rightarrow> int \<Rightarrow> int \<Rightarrow> 'a list" where
  "py_slice xs start end =
     (let s = slice_bound (length xs) start; e = slice_bound (length xs) end
      in take (e - s) (drop s xs))"

text \<open>
  A Python \<^verbatim>\<open>dict\<close> keeps its items in insertion order and its keys distinct: it is
  modelled as the list of its items. \<^verbatim>\<open>k in d\<close> and \<^verbatim>\<open>d[k]\<close> are \<open>map_of d k\<close>;
  \<^verbatim>\<open>d[k] = v\<close> overwrites the value of a key that is present, in place, and appends a
  new key at the end.
\<close>

type_synonym ('k, 'v) pydict = "('k \<times> 'v) list"

fun dict_set :: "('k, 'v) pydict \<Rightarrow> 'k \<Rightarrow> 'v \<Rightarrow> ('k, 'v) pydict" where
  "dict_set [] k v = [(k, v)]"
| "dict_set ((k', v') # d) k v = (if k' = k then (k, v) # d else (k', v') # dict_set d k v)"

section \<open>KagWorkflow: the context builder\<close>

record speaker =
  description :: pystr
  gender :: pystr

text \<open>
  The fields of a \<^verbatim>\<open>KagWorkflow\<close> object: the half-window size and the two tables
  loaded from \<^verbatim>\<open>names.json\<close> and \<^verbatim>\<open>kag_db.json\<close>.
\<close>

record kag_workflow =
  window_size :: int
  names_map :: "(pystr, pystr) pydict"
  kag_db :: "(pystr, speaker) pydict"

text \<open>The string literals of \<^verbatim>\<open>kag_workflow.py\<close>, as code points.\<close>

definition scene_header :: pystr where
  \<comment> \<open>"Kontekst sceny:" and a line feed\<close>
  "scene_header =
     [1050, 1086, 1085, 1090, 1077, 1082, 1089, 1090, 32, 1089, 1094, 1077, 1085, 1099, 58, 10]"

definition speaker_label :: pystr where
  \<comment> \<open>a line feed, "Opisanie govoryashchego:" and a space\<close>
  "speaker_label =
     [10, 1054, 1087, 1080, 1089, 1072, 1085, 1080, 1077, 32, 1075, 1086, 1074, 1086, 1088,
      1103, 1097, 1077, 1075, 1086, 58, 32]"

definition direct_speech_prefix :: pystr where
  \<comment> \<open>"pryamaya rech," and a space\<close>
  "direct_speech_prefix = [1087, 1088, 1103, 1084, 1072, 1103, 32, 1088, 1077, 1095, 1100, 44, 32]"

definition gender_label :: pystr where
  \<comment> \<open>", pol:" and a space\<close>
  "gender_label = [44, 32, 1087, 1086, 1083, 58, 32]"

definition narration_default :: pystr where
  \<comment> \<open>"ne pryamaya rech, opisanie mira vokrug ili deystviy personazhey"\<close>
  "narration_default =
     [1085, 1077, 32, 1087, 1088, 1103, 1084, 1072, 1103, 32, 1088, 1077, 1095, 1100, 44, 32,
      1086, 1087, 1080, 1089, 1072, 1085, 1080, 1077, 32, 1084, 1080, 1088, 1072, 32, 1074,
      1086, 1082, 1088, 1091, 1075, 32, 1080, 1083, 1080, 32, 1076, 1077, 1081, 1089, 1090,
      1074, 1080, 1081, 32, 1087, 1077, 1088, 1089, 1086, 1085, 1072, 1078, 1077, 1081]"

definition names_header :: pystr where
  \<comment> \<open>a line feed, "Slovar imyon:" and a line feed\<close>
  "names_header = [10, 1057, 1083, 1086, 1074, 1072, 1088, 1100, 32, 1080, 1084, 1105, 1085, 58, 10]"

definition build_context_text_around :: "kag_workflow \<Rightarrow> pystr list \<Rightarrow> int \<Rightarrow> pystr" where
  "build_context_text_around kag all_lines line_num =
     (let start = max 0 (line_num - window_size kag);
          end = min (int (length all_lines)) (line_num + window_size kag + 1);
          result = py_slice all_lines start end
      in scene_header @ concat result)"

definition build_context_kag_description :: "kag_workflow \<Rightarrow> pystr \<Rightarrow> pystr" where
  "build_context_kag_description kag prev_line =
     (case map_of (kag_db kag) prev_line of
        Some person \<Rightarrow> direct_speech_prefix @ description person @ gender_label @ gender person
      | None \<Rightarrow> narration_default)"

text \<open>
  The dict comprehension of \<^verbatim>\<open>_build_context_names_dict\<close> walks the items of
  \<^verbatim>\<open>names_map\<close> in order and stores each one whose key occurs in the line.
\<close>

definition relevant_names :: "kag_workflow \<Rightarrow> pystr \<Rightarrow> (pystr, pystr) pydict" where
  "relevant_names kag search_line =
     fold (\<lambda>(jp_name, ru_name) d. if sublist jp_name search_line then dict_set d jp_name ru_name else d)
       (names_map kag) []"

definition render_name :: "pystr \<times> pystr \<Rightarrow> pystr" where
  "render_name = (\<lambda>(jp, ru). jp @ [32, 61, 32] @ ru)"

definition build_context_names_dict :: "kag_workflow \<Rightarrow> pystr \<Rightarrow> pystr" where
  "build_context_names_dict kag search_line =
     (let rel = relevant_names kag search_line
      in if rel = [] then []
         else (names_header @ join [10] (map render_name rel)) @ [10])"

definition build_context :: "kag_workflow \<Rightarrow> pystr list \<Rightarrow> int \<Rightarrow> py_error + pystr" where
  "build_context kag all_lines line_num =
     (case py_index all_lines line_num of
        Inl e \<Rightarrow> Inl e
      | Inr search_line \<Rightarrow>
          (case (if line_num > 0
                 then (case py_index all_lines (line_num - 1) of
                         Inl e \<Rightarrow> Inl e | Inr l \<Rightarrow> Inr (strip l))
                 else Inr [])
           of Inl e \<Rightarrow> Inl e
            | Inr prev_line \<Rightarrow>
                (let text_around = build_context_text_around kag all_lines line_num;
                     names_dictionary = build_context_names_dict kag search_line;
                     kag_description = build_context_kag_description kag prev_line
                 in if text_around = [] then Inr []
                    else Inr ([10] @ text_around @ names_dictionary @
                              speaker_label @ kag_description @ [10]))))"

section \<open>The outside world: the model, the clock and the terminal\<close>

text \<open>
  Text generation and the clock are outside the program. They are the functions of a
  \<open>platform\<close>, each taking and returning a state \<open>'x\<close> of the outside, so that one
  prompt can be answered differently on each call. Floating-point numbers are a type
  \<open>'f\<close> with the platform's own subtraction, multiplication and division.
\<close>

record ('x, 'f) platform =
  model_generate :: "pystr \<Rightarrow> int \<Rightarrow> 'f \<Rightarrow> 'x \<Rightarrow> pystr \<times> 'x"
  time_time :: "'x \<Rightarrow> 'f \<times> 'x"
  float_of_int :: "int \<Rightarrow> 'f"
  fsub :: "'f \<Rightarrow> 'f \<Rightarrow> 'f"
  fmul :: "'f \<Rightarrow> 'f \<Rightarrow> 'f"
  fdiv :: "'f \<Rightarrow> 'f \<Rightarrow> 'f"

text \<open>One constructor for each \<^verbatim>\<open>print\<close> call of the source, holding the values it formats.\<close>

datatype 'f event =
    PrintResp pystr pystr
  | PrintOriginal pystr
  | PrintPromptBegin pystr
  | PrintPromptBody pystr
  | PrintPromptEnd pystr
  | PrintLineDone 'f
  | PrintProgress int int int 'f 'f
  | PrintFileDone
  | PrintFileDoneIn 'f

text \<open>
  The state threaded through the program: the outside, the calls of
  \<^verbatim>\<open>generate_response\<close> made so far (prompt and returned text), and what was printed.
\<close>

record ('x, 'f) world =
  outside :: 'x
  calls :: "(pystr \<times> pystr) list"
  stdout :: "'f event list"

definition emit :: "'f event \<Rightarrow> ('x, 'f) world \<Rightarrow> ('x, 'f) world" where
  "emit e w = w\<lparr>stdout := stdout w @ [e]\<rparr>"

definition read_clock :: "('x, 'f) platform \<Rightarrow> ('x, 'f) world \<Rightarrow> 'f \<times> ('x, 'f) world" where
  "read_clock pf w = (case time_time pf (outside w) of (t, x) \<Rightarrow> (t, w\<lparr>outside := x\<rparr>))"

section \<open>LlmWorkflow: generation with retry\<close>

definition no_response :: pystr where
  \<comment> \<open>"no response from llm"\<close>
  "no_response =
     [110, 111, 32, 114, 101, 115, 112, 111, 110, 115, 101, 32, 102, 114, 111, 109, 32, 108, 108, 109]"

definition attempt_marker :: pystr where
  \<comment> \<open>"Popytka nomer" and a space\<close>
  "attempt_marker = [1055, 1086, 1087, 1099, 1090, 1082, 1072, 32, 1085, 1086, 1084, 1077, 1088, 32]"

text \<open>\<^verbatim>\<open>generate_response\<close>: the decoded text of the model, stripped.\<close>

definition generate_response ::
  "('x, 'f) platform \<Rightarrow> pystr \<Rightarrow> int \<Rightarrow> 'f \<Rightarrow> ('x, 'f) world \<Rightarrow> pystr \<times> ('x, 'f) world" where
  "generate_response pf prompt max_tokens temperature w =
     (case model_generate pf prompt max_tokens temperature (outside w) of
        (text, x) \<Rightarrow>
          (strip text, w\<lparr>outside := x, calls := calls w @ [(prompt, strip text)]\<rparr>))"

text \<open>
  The body of \<^verbatim>\<open>for i in range(retry_count)\<close>, by recursion on the values of
  \<^verbatim>\<open>i\<close> still to come; running out of them is the \<^verbatim>\<open>return\<close> after the loop.
\<close>

primrec retry_loop ::
  "('x, 'f) platform \<Rightarrow> int \<Rightarrow> 'f \<Rightarrow> pystr \<Rightarrow> nat list \<Rightarrow> pystr \<Rightarrow> ('x, 'f) world
     \<Rightarrow> pystr \<times> ('x, 'f) world" where
  "retry_loop pf max_tokens temperature resp_name [] prompt w = (no_response, w)"
| "retry_loop pf max_tokens temperature resp_name (i # is) prompt w =
     (case generate_response pf prompt max_tokens temperature w of
        (raw, w1) \<Rightarrow>
          (let response = strip (first_line raw);
               w2 = emit (PrintResp resp_name response) w1
           in if response \<noteq> [] then (response, w2)
              else retry_loop pf max_tokens temperature resp_name is
                     (attempt_marker @ str_of_nat (i + 1) @ [10] @ prompt) w2))"

definition generate_with_retry ::
  "('x, 'f) platform \<Rightarrow> pystr \<Rightarrow> int \<Rightarrow> 'f \<Rightarrow> int \<Rightarrow> pystr \<Rightarrow> ('x, 'f) world
     \<Rightarrow> pystr \<times> ('x, 'f) world" where
  "generate_with_retry pf prompt max_tokens temperature retry_count resp_name w =
     retry_loop pf max_tokens temperature resp_name [0..<nat retry_count] prompt w"

section \<open>TranslateWorkflow: translate, then edit\<close>

text \<open>The two prompt templates of \<^verbatim>\<open>translate_workflow.py\<close>, cut at their slots.\<close>

definition translate_prompt_head :: pystr where
  \<comment> \<open>the translate template up to its context slot: the instructions, five lines\<close>
  "translate_prompt_head =
     [1058, 1099, 32, 8212, 32, 1083, 1080, 1090, 1077, 1088, 1072, 1090, 1091, 1088, 1085, 1099,
      1081, 32, 1087, 1077, 1088, 1077, 1074, 1086, 1076, 1095, 1080, 1082, 46, 32, 1055, 1077,
      1088, 1077, 1074, 1077, 1076, 1080, 32, 1085, 1072, 32, 1088, 1091, 1089, 1089, 1082, 1080,
      1081, 32, 1103, 1079, 1099, 1082, 46, 10, 1060, 1088, 1072, 1079, 1099, 32, 1074, 1085,
      1091, 1090, 1088, 1080, 32, 12300, 12301, 32, 8212, 32, 1101, 1090, 1086, 32, 1087, 1088,
      1103, 1084, 1072, 1103, 32, 1088, 1077, 1095, 1100, 44, 32, 1087, 1077, 1088, 1077, 1074,
      1086, 1076, 1080, 32, 1080, 1093, 32, 1082, 1072, 1082, 32, 1087, 1088, 1103, 1084, 1091,
      1102, 32, 1088, 1077, 1095, 1100, 46, 32, 32, 10, 1059, 1095, 1080, 1090, 1099, 1074, 1072,
      1081, 32, 1082, 1086, 1085, 1090, 1077, 1082, 1089, 1090, 32, 1074, 1086, 1082, 1088, 1091,
      1075, 32, 1090, 1077, 1082, 1089, 1090, 1072, 32, 1080, 32, 1086, 1087, 1080, 1089, 1072,
      1085, 1080, 1077, 32, 1087, 1077, 1088, 1089, 1086, 1085, 1072, 1078, 1077, 1081, 32, 1076,
      1083, 1103, 32, 1087, 1088, 1072, 1074, 1080, 1083, 1100, 1085, 1086, 1081, 32, 1087, 1077,
      1088, 1077, 1076, 1072, 1095, 1080, 32, 1089, 1084, 1099, 1089, 1083, 1072, 46, 32, 10,
      1045, 1089, 1083, 1080, 32, 1074, 32, 1090, 1077, 1082, 1089, 1090, 1077, 32, 1085, 1077,
      1090, 32, 1103, 1087, 1086, 1085, 1089, 1082, 1086, 1075, 1086, 44, 32, 1090, 1086, 1075,
      1076, 1072, 32, 42, 42, 1087, 1086, 1074, 1090, 1086, 1088, 1080, 32, 1077, 1075, 1086, 32,
      1076, 1086, 1089, 1083, 1086, 1074, 1085, 1086, 42, 42, 46, 10, 1042, 1099, 1074, 1086,
      1076, 32, 1089, 1090, 1088, 1086, 1075, 1086, 58, 32, 1086, 1076, 1085, 1072, 32, 1089,
      1090, 1088, 1086, 1082, 1072, 32, 1087, 1077, 1088, 1077, 1074, 1086, 1076, 1072, 44, 32,
      1073, 1077, 1079, 32, 1082, 1086, 1084, 1084, 1077, 1085, 1090, 1072, 1088, 1080, 1077,
      1074, 46, 10]"

definition translate_prompt_middle :: pystr where
  \<comment> \<open>from the context slot to the line slot: the example pairs, then the request and the source-language label\<close>
  "translate_prompt_middle =
     [10, 1055, 1088, 1080, 1084, 1077, 1088, 32, 1087, 1077, 1088, 1077, 1074, 1086, 1076, 1072,
      58, 10, 1071, 1087, 1086, 1085, 1089, 1082, 1080, 1081, 58, 32, 12450, 12531, 12490, 12399,
      27598, 12354, 12373, 19971, 26178, 12395, 36215, 12365, 12414, 12377, 12290, 10, 1056, 1091,
      1089, 1089, 1082, 1080, 1081, 58, 32, 1040, 1085, 1085, 1072, 32, 1074, 1089, 1090, 1072,
      1077, 1090, 32, 1074, 32, 1089, 1077, 1084, 1100, 32, 1091, 1090, 1088, 1072, 32, 1082,
      1072, 1078, 1076, 1086, 1077, 32, 1091, 1090, 1088, 1086, 46, 10, 10, 1071, 1087, 1086,
      1085, 1089, 1082, 1080, 1081, 58, 32, 46, 46, 46, 46, 46, 46, 10, 1056, 1091, 1089, 1089,
      1082, 1080, 1081, 58, 32, 46, 46, 46, 46, 46, 46, 10, 10, 1055, 1077, 1088, 1077, 1074,
      1077, 1076, 1080, 58, 10, 1071, 1087, 1086, 1085, 1089, 1082, 1080, 1081, 58, 32]"

definition translate_prompt_tail :: pystr where
  \<comment> \<open>after the line slot: a line feed and the target-language label\<close>
  "translate_prompt_tail =
     [10, 1056, 1091, 1089, 1089, 1082, 1080, 1081, 58]"

definition edit_prompt_head :: pystr where
  \<comment> \<open>the edit template up to its line slot: the instructions, the examples and the text label\<close>
  "edit_prompt_head =
     [1058, 1099, 32, 8212, 32, 1083, 1080, 1090, 1077, 1088, 1072, 1090, 1091, 1088, 1085, 1099,
      1081, 32, 1088, 1077, 1076, 1072, 1082, 1090, 1086, 1088, 46, 32, 10, 1058, 1074, 1086,
      1103, 32, 1079, 1072, 1076, 1072, 1095, 1072, 32, 8212, 32, 1089, 1076, 1077, 1083, 1072,
      1090, 1100, 32, 1080, 1089, 1093, 1086, 1076, 1085, 1099, 1081, 32, 1088, 1091, 1089, 1089,
      1082, 1080, 1081, 32, 1090, 1077, 1082, 1089, 1090, 32, 1075, 1088, 1072, 1084, 1084, 1072,
      1090, 1080, 1095, 1077, 1089, 1082, 1080, 32, 1087, 1088, 1072, 1074, 1080, 1083, 1100,
      1085, 1099, 1084, 44, 32, 1083, 1077, 1075, 1082, 1080, 1084, 32, 1076, 1083, 1103, 32,
      1095, 1090, 1077, 1085, 1080, 1103, 32, 1080, 32, 1091, 1073, 1088, 1072, 1090, 1100, 32,
      1089, 1083, 1086, 1078, 1085, 1099, 1077, 32, 1086, 1073, 1086, 1088, 1086, 1090, 1099, 46,
      32, 10, 1057, 1086, 1093, 1088, 1072, 1085, 1103, 1081, 32, 1090, 1086, 1095, 1085, 1099,
      1081, 32, 1089, 1084, 1099, 1089, 1083, 32, 1086, 1088, 1080, 1075, 1080, 1085, 1072, 1083,
      1072, 44, 32, 1085, 1077, 32, 1076, 1086, 1073, 1072, 1074, 1083, 1103, 1081, 32, 1076,
      1077, 1090, 1072, 1083, 1077, 1081, 32, 1080, 1083, 1080, 32, 1101, 1084, 1086, 1094, 1080,
      1081, 44, 32, 1082, 1086, 1090, 1086, 1088, 1099, 1093, 32, 1090, 1072, 1084, 32, 1085,
      1077, 1090, 46, 10, 1045, 1089, 1083, 1080, 32, 1090, 1077, 1082, 1089, 1090, 32, 1085,
      1077, 32, 1090, 1088, 1077, 1073, 1091, 1077, 1090, 32, 1080, 1079, 1084, 1077, 1085, 1077,
      1085, 1080, 1081, 44, 32, 42, 42, 1087, 1086, 1074, 1090, 1086, 1088, 1080, 32, 1077, 1075,
      1086, 32, 1076, 1086, 1089, 1083, 1086, 1074, 1085, 1086, 42, 42, 32, 8212, 32, 42, 42,
      1074, 1082, 1083, 1102, 1095, 1072, 1103, 32, 1074, 1089, 1077, 32, 1079, 1085, 1072, 1082,
      1080, 32, 1087, 1088, 1077, 1087, 1080, 1085, 1072, 1085, 1080, 1103, 44, 32, 1087, 1088,
      1086, 1073, 1077, 1083, 1099, 32, 1080, 32, 1086, 1092, 1086, 1088, 1084, 1083, 1077, 1085,
      1080, 1077, 42, 42, 46, 10, 10, 1042, 1099, 1074, 1086, 1076, 58, 32, 1086, 1076, 1085,
      1072, 32, 1089, 1090, 1088, 1086, 1082, 1072, 44, 32, 1073, 1077, 1079, 32, 1082, 1086,
      1084, 1084, 1077, 1085, 1090, 1072, 1088, 1080, 1077, 1074, 46, 10, 10, 1055, 1088, 1080,
      1084, 1077, 1088, 1099, 58, 10, 1058, 1077, 1082, 1089, 1090, 58, 32, 1042, 1072, 1072, 44,
      32, 1089, 1074, 1077, 1090, 32, 1083, 1091, 1085, 1099, 32, 1086, 1090, 1088, 1072, 1078,
      1072, 1077, 1090, 1089, 1103, 32, 1074, 32, 1090, 1080, 1093, 1086, 1081, 32, 1074, 1086,
      1076, 1077, 32, 1087, 1088, 1091, 1076, 1072, 44, 32, 1076, 1077, 1083, 1072, 1103, 32,
      1085, 1086, 1095, 1100, 32, 1082, 1072, 1079, 1072, 1090, 1100, 1089, 1103, 32, 1077, 1097,
      1105, 32, 1073, 1086, 1083, 1077, 1077, 32, 1076, 1086, 1083, 1075, 1086, 1081, 46, 10,
      1042, 1099, 1074, 1086, 1076, 58, 32, 1042, 1072, 1091, 44, 32, 1083, 1091, 1085, 1085,
      1099, 1081, 32, 1089, 1074, 1077, 1090, 44, 32, 1086, 1090, 1088, 1072, 1078, 1072, 1103,
      1089, 1100, 32, 1074, 32, 1090, 1080, 1093, 1086, 1081, 32, 1074, 1086, 1076, 1077, 32,
      1087, 1088, 1091, 1076, 1072, 44, 32, 1076, 1077, 1083, 1072, 1083, 32, 1085, 1086, 1095,
      1100, 32, 1073, 1077, 1089, 1082, 1086, 1085, 1077, 1095, 1085, 1086, 32, 1076, 1086, 1083,
      1075, 1086, 1081, 46, 10, 10, 1058, 1077, 1082, 1089, 1090, 58, 32, 46, 46, 46, 46, 46, 46,
      10, 1042, 1099, 1074, 1086, 1076, 58, 32, 46, 46, 46, 46, 46, 46, 10, 10, 1058, 1077, 1082,
      1089, 1090, 58, 32]"

definition edit_prompt_tail :: pystr where
  \<comment> \<open>after the line slot: a line feed and the output label\<close>
  "edit_prompt_tail =
     [10, 1042, 1099, 1074, 1086, 1076, 58]"

definition translate_prompt :: "pystr \<Rightarrow> pystr \<Rightarrow> pystr" where
  "translate_prompt context line =
     translate_prompt_head @ context @ translate_prompt_middle @ line @ translate_prompt_tail"

definition edit_prompt :: "pystr \<Rightarrow> pystr" where
  "edit_prompt line = edit_prompt_head @ line @ edit_prompt_tail"

definition resp_translation :: pystr where
  \<comment> \<open>"translation"\<close>
  "resp_translation = [116, 114, 97, 110, 115, 108, 97, 116, 105, 111, 110]"

definition resp_edit :: pystr where
  \<comment> \<open>"edit"\<close>
  "resp_edit = [101, 100, 105, 116]"

definition label_translate_prompt :: pystr where
  \<comment> \<open>"TRANSLATE PROMPT"\<close>
  "label_translate_prompt = [84, 82, 65, 78, 83, 76, 65, 84, 69, 32, 80, 82, 79, 77, 80, 84]"

definition label_edit_prompt :: pystr where
  \<comment> \<open>"EDIT PROMPT"\<close>
  "label_edit_prompt = [69, 68, 73, 84, 32, 80, 82, 79, 77, 80, 84]"

text \<open>
  The fields of a \<^verbatim>\<open>TranslateWorkflow\<close> object; its \<^verbatim>\<open>llm\<close> is the platform.
  \<^verbatim>\<open>generate_with_retry\<close> is always called with its default \<^verbatim>\<open>retry_count\<close> of 10.
\<close>

record 'f translate_workflow =
  max_tokens :: int
  temperature :: 'f
  show_prompt :: bool

definition print_prompt ::
  "'f translate_workflow \<Rightarrow> pystr \<Rightarrow> pystr \<Rightarrow> ('x, 'f) world \<Rightarrow> ('x, 'f) world" where
  "print_prompt tw prompt label w =
     (if show_prompt tw
      then emit (PrintPromptEnd label) (emit (PrintPromptBody prompt) (emit (PrintPromptBegin label) w))
      else w)"

definition edit_with_llm ::
  "('x, 'f) platform \<Rightarrow> 'f translate_workflow \<Rightarrow> pystr \<Rightarrow> ('x, 'f) world
     \<Rightarrow> pystr \<times> ('x, 'f) world" where
  "edit_with_llm pf tw line w =
     (let prompt = edit_prompt line;
          w1 = print_prompt tw prompt label_edit_prompt w
      in generate_with_retry pf prompt (max_tokens tw) (temperature tw) 10 resp_edit w1)"

definition translate_with_llm ::
  "('x, 'f) platform \<Rightarrow> 'f translate_workflow \<Rightarrow> pystr \<Rightarrow> pystr \<Rightarrow> ('x, 'f) world
     \<Rightarrow> pystr \<times> ('x, 'f) world" where
  "translate_with_llm pf tw line context w =
     (let w0 = emit (PrintOriginal line) w;
          prompt = translate_prompt context line;
          w1 = print_prompt tw prompt label_translate_prompt w0
      in case generate_with_retry pf prompt (max_tokens tw) (temperature tw) 10 resp_translation w1 of
           (raw_translation, w2) \<Rightarrow> edit_with_llm pf tw raw_translation w2)"

definition run_translate ::
  "('x, 'f) platform \<Rightarrow> 'f translate_workflow \<Rightarrow> pystr \<Rightarrow> pystr \<Rightarrow> ('x, 'f) world
     \<Rightarrow> pystr \<times> ('x, 'f) world" where
  "run_translate pf tw line context w =
     (case read_clock pf w of
        (start, w1) \<Rightarrow>
          (case translate_with_llm pf tw (strip line) context w1 of
             (translated, w2) \<Rightarrow>
               (case read_clock pf w2 of
                  (now, w3) \<Rightarrow> (translated, emit (PrintLineDone (fsub pf now start)) w3))))"

section \<open>FileWorkflow: the orchestrator\<close>

text \<open>
  \<^verbatim>\<open>self.file_data\<close> is the empty dict until \<^verbatim>\<open>translate_one_file\<close> stores its three
  entries: \<open>None\<close> is the empty dict, where reading an entry raises \<^verbatim>\<open>KeyError\<close>.
\<close>

record 'f file_data =
  start_file_translation :: 'f
  all_lines :: "pystr list"
  all_lines_len :: int

record 'f file_workflow =
  kag :: kag_workflow
  kag_enabled :: bool
  translate :: "'f translate_workflow"
  file_data :: "'f file_data option"

text \<open>
  \<^verbatim>\<open>eta\<close> starts as the integer 0 and is only ever divided by 60, which gives the
  float 0.0 as dividing the float zero does. \<^verbatim>\<open>//\<close> on integers is floor division,
  as \<open>div\<close> on \<open>int\<close> is, and raises \<^verbatim>\<open>ZeroDivisionError\<close> on a zero divisor.
\<close>

definition print_progress ::
  "('x, 'f) platform \<Rightarrow> 'f file_workflow \<Rightarrow> int \<Rightarrow> ('x, 'f) world
     \<Rightarrow> py_error + ('x, 'f) world" where
  "print_progress pf fw line_num w =
     (case read_clock pf w of
        (now, w1) \<Rightarrow>
          (case file_data fw of
             None \<Rightarrow> Inl KeyError
           | Some fd \<Rightarrow>
               (let elapsed = fsub pf now (start_file_translation fd);
                    total = all_lines_len fd;
                    eta = (if line_num > 0
                           then fsub pf (fmul pf (fdiv pf elapsed (float_of_int pf line_num))
                                           (float_of_int pf total)) elapsed
                           else float_of_int pf 0)
                in if total = 0 then Inl ZeroDivisionError
                   else (let percent = (line_num * 100) div total
                         in Inr (emit (PrintProgress line_num total percent
                                         (fdiv pf elapsed (float_of_int pf 60))
                                         (fdiv pf eta (float_of_int pf 60))) w1)))))"

definition translate_line ::
  "('x, 'f) platform \<Rightarrow> 'f file_workflow \<Rightarrow> int \<Rightarrow> pystr \<Rightarrow> ('x, 'f) world
     \<Rightarrow> py_error + pystr \<times> ('x, 'f) world" where
  "translate_line pf fw line_num line w =
     (case print_progress pf fw line_num w of
        Inl e \<Rightarrow> Inl e
      | Inr w1 \<Rightarrow>
          (case (if kag_enabled fw
                 then (case file_data fw of
                         None \<Rightarrow> Inl KeyError
                       | Some fd \<Rightarrow> build_context (kag fw) (all_lines fd) line_num)
                 else Inr [])
           of Inl e \<Rightarrow> Inl e
            | Inr context \<Rightarrow> Inr (run_translate pf (translate fw) line context w1)))"

text \<open>
  The loop of \<^verbatim>\<open>_segregate_and_translate_lines\<close> over \<^verbatim>\<open>enumerate(all_lines)\<close>,
  with the list \<^verbatim>\<open>result\<close> built so far.
\<close>

primrec segregate_loop ::
  "('x, 'f) platform \<Rightarrow> 'f file_workflow \<Rightarrow> (nat \<times> pystr) list \<Rightarrow> pystr list \<Rightarrow> ('x, 'f) world
     \<Rightarrow> py_error + pystr list \<times> ('x, 'f) world" where
  "segregate_loop pf fw [] result w = Inr (result, w)"
| "segregate_loop pf fw (item # rest) result w =
     (case item of
        (line_num, line) \<Rightarrow>
          (if strip line = [] then segregate_loop pf fw rest (result @ [line]) w
           else (case translate_line pf fw (int line_num) line w of
                   Inl e \<Rightarrow> Inl e
                 | Inr (t, w1) \<Rightarrow> segregate_loop pf fw rest (result @ [t @ [10]]) w1)))"

definition segregate_and_translate_lines ::
  "('x, 'f) platform \<Rightarrow> 'f file_workflow \<Rightarrow> pystr list \<Rightarrow> ('x, 'f) world
     \<Rightarrow> py_error + pystr list \<times> ('x, 'f) world" where
  "segregate_and_translate_lines pf fw ls w = segregate_loop pf fw (enumerate 0 ls) [] w"

text \<open>
  \<^verbatim>\<open>translate_one_file\<close>, from the lines \<^verbatim>\<open>readlines\<close> returned to the lines passed
  to \<^verbatim>\<open>writelines\<close>; it also returns the object with its \<^verbatim>\<open>file_data\<close> set.
\<close>

definition translate_one_file ::
  "('x, 'f) platform \<Rightarrow> 'f file_workflow \<Rightarrow> pystr list \<Rightarrow> ('x, 'f) world
     \<Rightarrow> py_error + pystr list \<times> 'f file_workflow \<times> ('x, 'f) world" where
  "translate_one_file pf fw ls w =
     (case read_clock pf w of
        (t0, w0) \<Rightarrow>
          (let fw1 = fw\<lparr>file_data := Some \<lparr>start_file_translation = t0, all_lines = ls,
                                             all_lines_len = int (length ls)\<rparr>\<rparr>
           in case segregate_and_translate_lines pf fw1 ls w0 of
                Inl e \<Rightarrow> Inl e
              | Inr (result, w1) \<Rightarrow>
                  (case read_clock pf (emit PrintFileDone w1) of
                     (t1, w2) \<Rightarrow>
                       Inr (result, fw1,
                            emit (PrintFileDoneIn (fdiv pf (fsub pf t1 t0) (float_of_int pf 60))) w2))))"

section \<open>A scripted platform\<close>

text \<open>
  A stand-in for the model, as a test would write it: the outside is the list of texts
  still to be returned, one per call, and the empty text once the list is used up. Its
  clock always reads 0 and its floats are integers.
\<close>

definition scripted :: "(pystr list, int) platform" where
  "scripted =
     \<lparr>model_generate = (\<lambda>prompt max_tokens temperature x. case x of [] \<Rightarrow> ([], []) | r # rs \<Rightarrow> (r, rs)),
      time_time = (\<lambda>x. (0, x)),
      float_of_int = (\<lambda>i. i),
      fsub = (\<lambda>a b. a - b),
      fmul = (\<lambda>a b. a * b),
      fdiv = (\<lambda>a b. a div b)\<rparr>"

section \<open>Properties of the context builder\<close>

lemma take_drop_nth: "e \<le> length xs \<Longrightarrow> take (e - s) (drop s xs) = map ((!) xs) [s..<e]"
  by (simp add: list_eq_iff_nth_eq)

lemma py_slice_nth:
  assumes "0 \<le> s" "0 \<le> e" "e \<le> int (length xs)"
  shows "py_slice xs s e = map ((!) xs) [nat s..<nat e]"
  using assms by (simp add: py_slice_def slice_bound_def Let_def take_drop_nth min_def nat_le_iff)

lemma dict_set_fresh: "k \<notin> fst ` set d \<Longrightarrow> dict_set d k v = d @ [(k, v)]"
  by (induction d) auto

lemma fold_names_filter:
  "distinct (map fst xs) \<Longrightarrow> fst ` set acc \<inter> fst ` set xs = {} \<Longrightarrow>
   fold (\<lambda>(jp_name, ru_name) d. if P jp_name then dict_set d jp_name ru_name else d) xs acc
   = acc @ filter (\<lambda>(k, v). P k) xs"
proof (induction xs arbitrary: acc)
  case Nil then show ?case by simp
next
  case (Cons x xs)
  obtain k v where x: "x = (k, v)" by (cases x)
  show ?case
  proof (cases "P k")
    case True
    have fresh: "k \<notin> fst ` set acc" using Cons.prems(2) x by auto
    have d: "distinct (map fst xs)" using Cons.prems(1) by simp
    have disj: "fst ` set (acc @ [(k, v)]) \<inter> fst ` set xs = {}"
      using Cons.prems x by auto
    show ?thesis using True x Cons.IH[OF d disj] by (simp add: dict_set_fresh[OF fresh])
  next
    case False
    have d: "distinct (map fst xs)" using Cons.prems(1) by simp
    have disj: "fst ` set acc \<inter> fst ` set xs = {}" using Cons.prems(2) by auto
    show ?thesis using False x Cons.IH[OF d disj] by simp
  qed
qed

lemma relevant_names_filter:
  "distinct (map fst (names_map k)) \<Longrightarrow>
   relevant_names k line = filter (\<lambda>(jp, ru). sublist jp line) (names_map k)"
  using fold_names_filter[of "names_map k" "[]" "\<lambda>jp. sublist jp line"]
  by (simp add: relevant_names_def)

lemma relevant_names_none:
  "\<forall>(jp, ru) \<in> set xs. \<not> P jp \<Longrightarrow>
   fold (\<lambda>(jp_name, ru_name) d. if P jp_name then dict_set d jp_name ru_name else d) xs acc = acc"
  by (induction xs arbitrary: acc) auto

lemma scene_header_nonempty: "scene_header \<noteq> []"
  by (simp add: scene_header_def)

lemma text_around_nonempty: "build_context_text_around k ls n \<noteq> []"
  by (simp add: build_context_text_around_def Let_def scene_header_nonempty)

lemma py_index_in_range:
  "0 \<le> n \<Longrightarrow> n < int (length ls) \<Longrightarrow> py_index ls n = Inr (ls ! nat n)"
  by (simp add: py_index_def Let_def)

lemma build_context_in_range:
  assumes "0 \<le> n" "n < int (length ls)"
  shows "build_context k ls n =
           Inr ([10] @ build_context_text_around k ls n @ build_context_names_dict k (ls ! nat n) @
                speaker_label @
                build_context_kag_description k (if n > 0 then strip (ls ! nat (n - 1)) else []) @ [10])"
proof (cases "n > 0")
  case True
  then have "py_index ls (n - 1) = Inr (ls ! nat (n - 1))"
    using assms by (intro py_index_in_range) auto
  then show ?thesis
    using True assms
    by (simp add: build_context_def py_index_in_range Let_def text_around_nonempty)
next
  case False
  then show ?thesis
    using assms
    by (simp add: build_context_def py_index_in_range Let_def text_around_nonempty)
qed

text \<open>
  Claim C4. For a target index inside the script and a half-window size \<open>w \<ge> 0\<close>, the
  scene excerpt is the scene-context header followed by exactly the lines with indices
  from \<open>max 0 (idx - w)\<close> up to, not including, \<open>min len (idx + w + 1)\<close>, concatenated
  verbatim in order. In particular, with \<open>w = 4\<close>, ten lines and index 2 these are the
  lines 0 to 6.
\<close>
theorem text_around_window:
  assumes "0 \<le> idx" and "idx < int (length ls)" and "0 \<le> window_size k"
  shows "build_context_text_around k ls idx =
           scene_header @
           concat (map ((!) ls) [nat (max 0 (idx - window_size k))..<
                                  nat (min (int (length ls)) (idx + window_size k + 1))])
         \<and> (window_size k = 4 \<and> length ls = 10 \<and> idx = 2 \<longrightarrow>
              build_context_text_around k ls idx = scene_header @ concat (map ((!) ls) [0..<7]))"
proof -
  let ?s = "max 0 (idx - window_size k)"
  let ?e = "min (int (length ls)) (idx + window_size k + 1)"
  have "py_slice ls ?s ?e = map ((!) ls) [nat ?s..<nat ?e]"
    using assms by (intro py_slice_nth) auto
  then have main: "build_context_text_around k ls idx = scene_header @ concat (map ((!) ls) [nat ?s..<nat ?e])"
    by (simp add: build_context_text_around_def Let_def)
  show ?thesis
  proof (intro conjI impI)
    show "build_context_text_around k ls idx = scene_header @ concat (map ((!) ls) [nat ?s..<nat ?e])"
      by (rule main)
  next
    assume a: "window_size k = 4 \<and> length ls = 10 \<and> idx = 2"
    then have "nat ?s = 0" "nat ?e = 7" by auto
    then show "build_context_text_around k ls idx = scene_header @ concat (map ((!) ls) [0..<7])"
      using main by simp
  qed
qed

theorem text_around_window_witness:
  "build_context_text_around \<lparr>window_size = 4, names_map = [], kag_db = []\<rparr>
     [[48], [49], [50], [51], [52], [53], [54], [55], [56], [57]] 2
   = scene_header @ [48, 49, 50, 51, 52, 53, 54]"
  using text_around_window[of 2 "[[48], [49], [50], [51], [52], [53], [54], [55], [56], [57]]"
          "\<lparr>window_size = 4, names_map = [], kag_db = []\<rparr>"]
  by (simp add: upt_rec)

text \<open>
  Claim C9. \<^verbatim>\<open>build_context\<close> indexes the line list with no bounds guard. For
  \<open>0 \<le> line_num < len(all_lines)\<close> it returns a string, and that string is never empty;
  on an empty script, and on an index at or beyond the length (or below \<open>-len\<close>), the
  access raises \<^verbatim>\<open>IndexError\<close> instead of returning the empty string. Since the
  header is always prepended to the excerpt, the branch returning the empty string is
  never taken: no input makes the result the empty string.
\<close>
theorem build_context_total_nonempty:
  "(0 \<le> n \<and> n < int (length ls) \<longrightarrow> (\<exists>s. build_context k ls n = Inr s \<and> s \<noteq> []))
   \<and> build_context k [] n = Inl IndexError
   \<and> (int (length ls) \<le> n \<or> n < - int (length ls) \<longrightarrow> build_context k ls n = Inl IndexError)
   \<and> build_context k ls n \<noteq> Inr []"
proof (intro conjI impI)
  assume "0 \<le> n \<and> n < int (length ls)"
  then show "\<exists>s. build_context k ls n = Inr s \<and> s \<noteq> []"
    by (simp add: build_context_in_range)
next
  have "py_index ([] :: pystr list) n = Inl IndexError"
    by (auto simp: py_index_def)
  then show "build_context k [] n = Inl IndexError"
    by (simp add: build_context_def)
next
  assume "int (length ls) \<le> n \<or> n < - int (length ls)"
  then show "build_context k ls n = Inl IndexError"
    by (auto simp: build_context_def py_index_def Let_def)
next
  show "build_context k ls n \<noteq> Inr []"
    by (simp add: build_context_def Let_def text_around_nonempty split: sum.splits)
qed

theorem build_context_total_nonempty_witness:
  "(\<exists>s. build_context \<lparr>window_size = 4, names_map = [], kag_db = []\<rparr> [[65, 10]] 0 = Inr s \<and> s \<noteq> [])
   \<and> build_context \<lparr>window_size = 4, names_map = [], kag_db = []\<rparr> [[65, 10]] 1 = Inl IndexError"
  using build_context_total_nonempty[of 0 "[[65, 10]]" "\<lparr>window_size = 4, names_map = [], kag_db = []\<rparr>"]
        build_context_total_nonempty[of 1 "[[65, 10]]" "\<lparr>window_size = 4, names_map = [], kag_db = []\<rparr>"]
  by simp

text \<open>
  Claim C5. The names section holds exactly the entries of the name dictionary whose key
  is a literal substring of the target line, in the dictionary's order, one
  \<open>key = value\<close> per line under the names header. When no key is a substring of the
  line, \<^verbatim>\<open>_build_context_names_dict\<close> returns the empty string, and the context
  goes from the scene excerpt straight to the speaker description: no names header is
  emitted. (The keys of a dict are distinct.)
\<close>
theorem names_section_entries:
  assumes "distinct (map fst (names_map k))"
  shows "build_context_names_dict k line =
           (let rel = filter (\<lambda>(jp, ru). sublist jp line) (names_map k)
            in if rel = [] then []
               else names_header @ join [10] (map (\<lambda>(jp, ru). jp @ [32, 61, 32] @ ru) rel) @ [10])
         \<and> ((\<forall>(jp, ru) \<in> set (names_map k). \<not> sublist jp line) \<longrightarrow>
              build_context_names_dict k line = [] \<and>
              (0 \<le> n \<and> n < int (length ls) \<and> ls ! nat n = line \<longrightarrow>
                 build_context k ls n =
                   Inr ([10] @ build_context_text_around k ls n @ speaker_label @
                        build_context_kag_description k (if n > 0 then strip (ls ! nat (n - 1)) else []) @
                        [10])))"
proof (intro conjI impI)
  have r: "render_name = (\<lambda>(jp, ru). jp @ [32, 61, 32] @ ru)"
    by (simp add: render_name_def)
  show "build_context_names_dict k line =
           (let rel = filter (\<lambda>(jp, ru). sublist jp line) (names_map k)
            in if rel = [] then []
               else names_header @ join [10] (map (\<lambda>(jp, ru). jp @ [32, 61, 32] @ ru) rel) @ [10])"
    using assms by (simp add: build_context_names_dict_def relevant_names_filter Let_def r)
next
  assume none: "\<forall>(jp, ru) \<in> set (names_map k). \<not> sublist jp line"
  then have "relevant_names k line = []"
    unfolding relevant_names_def by (rule relevant_names_none)
  then show e: "build_context_names_dict k line = []"
    by (simp add: build_context_names_dict_def)
  assume "0 \<le> n \<and> n < int (length ls) \<and> ls ! nat n = line"
  then show "build_context k ls n =
                   Inr ([10] @ build_context_text_around k ls n @ speaker_label @
                        build_context_kag_description k (if n > 0 then strip (ls ! nat (n - 1)) else []) @
                        [10])"
    using e by (simp add: build_context_in_range)
qed

theorem names_section_entries_witness:
  "build_context_names_dict
     \<lparr>window_size = 4, names_map = [([65], [1040]), ([66, 67], [1041]), ([67], [1042])], kag_db = []\<rparr>
     [65, 67, 10]
   = names_header @ [65, 32, 61, 32, 1040, 10, 67, 32, 61, 32, 1042, 10]
   \<and> build_context_names_dict
     \<lparr>window_size = 4, names_map = [([65], [1040]), ([66, 67], [1041]), ([67], [1042])], kag_db = []\<rparr>
     [68, 10] = []"
  using names_section_entries[of "\<lparr>window_size = 4, names_map = [([65], [1040]), ([66, 67], [1041]), ([67], [1042])], kag_db = []\<rparr>" "[65, 67, 10]" 0 "[]"]
    names_section_entries[of "\<lparr>window_size = 4, names_map = [([65], [1040]), ([66, 67], [1041]), ([67], [1042])], kag_db = []\<rparr>" "[68, 10]" 0 "[]"]
  by (simp add: sublist_code prefix_code)

text \<open>
  Claim C6, as the code has it. For the line at index 0 the speaker lookup uses the empty
  string as its key, whatever the script; the rendered description is the narration
  default whenever the speaker database has no entry under the empty string. A database
  that has such an entry is a hit like any other, as the counterexample below shows.
\<close>
theorem first_line_speaker_lookup:
  assumes "ls \<noteq> []"
  shows "build_context k ls 0 =
           Inr ([10] @ build_context_text_around k ls 0 @ build_context_names_dict k (ls ! 0) @
                speaker_label @ build_context_kag_description k [] @ [10])
         \<and> (map_of (kag_db k) [] = None \<longrightarrow> build_context_kag_description k [] = narration_default)"
  using assms build_context_in_range[of 0 ls k]
  by (simp add: build_context_kag_description_def)

theorem first_line_speaker_counterexample:
  "build_context
     \<lparr>window_size = 4, names_map = [],
      kag_db = [([], \<lparr>description = [1040], gender = [1078]\<rparr>)]\<rparr> [[65, 10]] 0
   = Inr ([10] @ scene_header @ [65, 10] @ speaker_label @
          direct_speech_prefix @ [1040] @ gender_label @ [1078] @ [10])
   \<and> direct_speech_prefix @ [1040] @ gender_label @ [1078] \<noteq> narration_default"
  by (simp add: build_context_def py_index_def build_context_text_around_def py_slice_def
        slice_bound_def build_context_names_dict_def relevant_names_def
        build_context_kag_description_def scene_header_def direct_speech_prefix_def
        narration_default_def Let_def)

theorem first_line_speaker_lookup_witness:
  "build_context \<lparr>window_size = 4, names_map = [], kag_db = []\<rparr> [[65, 10]] 0
   = Inr ([10] @ scene_header @ [65, 10] @ speaker_label @ narration_default @ [10])"
  using first_line_speaker_lookup[of "[[65, 10]]" "\<lparr>window_size = 4, names_map = [], kag_db = []\<rparr>"]
  by (simp add: build_context_text_around_def py_slice_def slice_bound_def
        build_context_names_dict_def relevant_names_def Let_def)

text \<open>
  Claim C3 says that an empty scene excerpt gives the empty context. The code tests
  \<^verbatim>\<open>if not text_around\<close> only after the header has been prepended, so the test never
  succeeds: a script whose only line is the empty string has an empty excerpt, yet the
  context holds the header and the speaker section; and the empty script raises
  \<^verbatim>\<open>IndexError\<close> at \<^verbatim>\<open>all_lines[line_num]\<close> before the test is reached.
\<close>
theorem empty_excerpt_not_empty_context:
  "build_context \<lparr>window_size = 4, names_map = [], kag_db = []\<rparr> [[]] 0
   = Inr ([10] @ scene_header @ speaker_label @ narration_default @ [10])
   \<and> build_context \<lparr>window_size = 4, names_map = [], kag_db = []\<rparr> [] 0 = Inl IndexError"
  by (simp add: build_context_def py_index_def build_context_text_around_def py_slice_def
        slice_bound_def build_context_names_dict_def relevant_names_def
        build_context_kag_description_def scene_header_def Let_def)

section \<open>Properties of stripping\<close>

lemma last_dropWhile_nonempty: "dropWhile P xs \<noteq> [] \<Longrightarrow> last (dropWhile P xs) = last xs"
  by (induction xs) auto

lemma strip_ends:
  assumes "strip s \<noteq> []"
  shows "\<not> is_space (hd (strip s))" and "\<not> is_space (last (strip s))"
proof -
  let ?r = "dropWhile is_space (rev s)"
  have s: "strip s = dropWhile is_space (rev ?r)"
    by (simp add: strip_def lstrip_def rstrip_def)
  show "\<not> is_space (hd (strip s))"
    using assms unfolding s by (rule hd_dropWhile)
  have rne: "?r \<noteq> []"
  proof
    assume e: "?r = []"
    have "strip s = []" by (simp only: s e rev.simps dropWhile.simps)
    with assms show False by simp
  qed
  have "last (dropWhile is_space (rev ?r)) = last (rev ?r)"
    using assms unfolding s by (rule last_dropWhile_nonempty)
  also have "\<dots> = hd ?r" using rne by (simp add: last_rev)
  finally show "\<not> is_space (last (strip s))"
    unfolding s using hd_dropWhile[OF rne] by simp
qed

lemma strip_fixed:
  assumes "t = [] \<or> (\<not> is_space (hd t) \<and> \<not> is_space (last t))"
  shows "strip t = t"
proof (cases "t = []")
  case True then show ?thesis by (simp add: strip_def lstrip_def rstrip_def)
next
  case False
  then have h: "\<not> is_space (hd t)" and l: "\<not> is_space (last t)" using assms by auto
  have "dropWhile is_space (rev t) = rev t"
    using False l by (simp add: dropWhile_eq_self_iff hd_rev)
  then have "rstrip t = t" by (simp add: rstrip_def)
  moreover have "lstrip t = t"
    using False h by (simp add: lstrip_def dropWhile_eq_self_iff)
  ultimately show ?thesis by (simp add: strip_def)
qed

lemma strip_idem: "strip (strip s) = strip s"
  using strip_ends[of s] by (intro strip_fixed) auto

lemma set_strip: "set (strip s) \<subseteq> set s"
proof -
  have "set (strip s) \<subseteq> set (rstrip s)"
    unfolding strip_def lstrip_def by (auto dest: set_dropWhileD)
  also have "\<dots> \<subseteq> set s"
    unfolding rstrip_def by (auto dest: set_dropWhileD)
  finally show ?thesis .
qed

lemma first_line_no_lf: "10 \<notin> set (first_line s)"
  unfolding first_line_def by (auto dest: set_takeWhileD)

lemma response_single_line: "10 \<notin> set (strip (first_line s))"
  using set_strip[of "first_line s"] first_line_no_lf[of s] by auto

lemma no_response_single_line: "10 \<notin> set no_response"
  by (simp add: no_response_def)

section \<open>Properties of generation with retry\<close>

lemma generate_response_world:
  "generate_response pf prompt mt temp w = (raw, w1) \<Longrightarrow>
   calls w1 = calls w @ [(prompt, raw)] \<and> stdout w1 = stdout w"
  by (auto simp: generate_response_def split: prod.splits)

lemma retry_loop_spec:
  "retry_loop pf mt temp name is prompt w = (r, w') \<Longrightarrow>
   \<exists>new. calls w' = calls w @ new \<and> length new \<le> length is \<and>
         (\<forall>c \<in> set (butlast new). strip (first_line (snd c)) = []) \<and>
         (if new \<noteq> [] \<and> strip (first_line (snd (last new))) \<noteq> []
          then r = strip (first_line (snd (last new)))
          else r = no_response \<and> length new = length is) \<and>
         (is \<noteq> [] \<longrightarrow> new \<noteq> [] \<and> fst (hd new) = prompt) \<and>
         (\<forall>c \<in> set new. suffix prompt (fst c)) \<and>
         stdout w' = stdout w @ map (\<lambda>c. PrintResp name (strip (first_line (snd c)))) new"
proof (induction "is" arbitrary: prompt w)
  case Nil
  then show ?case by (intro exI[of _ "[]"]) auto
next
  case (Cons i "is")
  obtain raw w1 where g: "generate_response pf prompt mt temp w = (raw, w1)"
    by (cases "generate_response pf prompt mt temp w")
  note gw = generate_response_world[OF g]
  let ?resp = "strip (first_line raw)"
  let ?w2 = "emit (PrintResp name ?resp) w1"
  have w2: "calls ?w2 = calls w @ [(prompt, raw)]" "stdout ?w2 = stdout w @ [PrintResp name ?resp]"
    using gw by (simp_all add: emit_def)
  show ?case
  proof (cases "?resp = []")
    case False
    then have "r = ?resp" "w' = ?w2" using Cons.prems g by (auto simp: Let_def)
    then show ?thesis using w2 False by (intro exI[of _ "[(prompt, raw)]"]) auto
  next
    case True
    let ?p = "attempt_marker @ str_of_nat (i + 1) @ [10] @ prompt"
    have "retry_loop pf mt temp name is ?p ?w2 = (r, w')"
      using Cons.prems g True by (simp add: Let_def)
    from Cons.IH[OF this] obtain new where n:
      "calls w' = calls ?w2 @ new" "length new \<le> length is"
      "\<forall>c \<in> set (butlast new). strip (first_line (snd c)) = []"
      "if new \<noteq> [] \<and> strip (first_line (snd (last new))) \<noteq> []
          then r = strip (first_line (snd (last new)))
          else r = no_response \<and> length new = length is"
      "\<forall>c \<in> set new. suffix ?p (fst c)"
      "stdout w' = stdout ?w2 @ map (\<lambda>c. PrintResp name (strip (first_line (snd c)))) new"
      by blast
    have suf: "\<forall>c \<in> set new. suffix prompt (fst c)"
    proof
      fix c assume "c \<in> set new"
      then have "suffix ?p (fst c)" using n(5) by blast
      moreover have "suffix prompt ?p"
        by (metis append.assoc suffixI)
      ultimately show "suffix prompt (fst c)" by (rule suffix_order.trans[rotated])
    qed
    let ?new = "(prompt, raw) # new"
    have b: "\<forall>c \<in> set (butlast ?new). strip (first_line (snd c)) = []"
      using n(3) True by (cases new) auto
    have l: "if ?new \<noteq> [] \<and> strip (first_line (snd (last ?new))) \<noteq> []
          then r = strip (first_line (snd (last ?new)))
          else r = no_response \<and> length ?new = length (i # is)"
      using n(4) True by (cases new) auto
    show ?thesis
      using n(1,2,6) w2 b l suf by (intro exI[of _ ?new]) auto
  qed
qed

lemma scripted_generate_response:
  "generate_response scripted p m t \<lparr>outside = x, calls = cs, stdout = out\<rparr> =
     (case x of [] \<Rightarrow> ([], \<lparr>outside = [], calls = cs @ [(p, [])], stdout = out\<rparr>)
      | r # rs \<Rightarrow> (strip r, \<lparr>outside = rs, calls = cs @ [(p, strip r)], stdout = out\<rparr>))"
  by (simp add: generate_response_def scripted_def strip_def lstrip_def rstrip_def split: list.splits)

lemma emit_world:
  "emit e \<lparr>outside = x, calls = cs, stdout = out\<rparr> = \<lparr>outside = x, calls = cs, stdout = out @ [e]\<rparr>"
  by (simp add: emit_def)

text \<open>
  Claim C2. \<^verbatim>\<open>generate_with_retry\<close> calls the generator at most \<^verbatim>\<open>retry_count\<close>
  times. Every call but the last returned a text that is empty once cut at its first
  line feed and stripped. If the last call's text is not empty after that treatment, it
  is the result: the first such response. Otherwise every attempt came back empty,
  exactly \<^verbatim>\<open>retry_count\<close> calls were made, and the result is the fixed string
  \<^verbatim>\<open>"no response from llm"\<close>. Here \<open>new\<close> are the calls made, each with its prompt and
  the text the generator returned.
\<close>
theorem generate_with_retry_first_nonempty:
  assumes "generate_with_retry pf prompt mt temp retry_count name w = (r, w')"
  shows "\<exists>new. calls w' = calls w @ new \<and> length new \<le> nat retry_count \<and>
           (\<forall>c \<in> set (butlast new). strip (first_line (snd c)) = []) \<and>
           (if new \<noteq> [] \<and> strip (first_line (snd (last new))) \<noteq> []
            then r = strip (first_line (snd (last new)))
            else r = no_response \<and> length new = nat retry_count)"
proof -
  from assms have "retry_loop pf mt temp name [0..<nat retry_count] prompt w = (r, w')"
    by (simp add: generate_with_retry_def)
  from retry_loop_spec[OF this] obtain new where
    "calls w' = calls w @ new" "length new \<le> length [0..<nat retry_count]"
    "\<forall>c \<in> set (butlast new). strip (first_line (snd c)) = []"
    "if new \<noteq> [] \<and> strip (first_line (snd (last new))) \<noteq> []
          then r = strip (first_line (snd (last new)))
          else r = no_response \<and> length new = length [0..<nat retry_count]"
    by blast
  then show ?thesis by (intro exI[of _ new]) simp
qed

theorem generate_with_retry_first_nonempty_witness:
  "fst (generate_with_retry scripted [80] 256 0 10 [110]
          \<lparr>outside = [[], [32, 10], [1055, 1088, 1080, 1074, 1077, 1090, 10, 88]], calls = [], stdout = []\<rparr>)
     = [1055, 1088, 1080, 1074, 1077, 1090]
   \<and> length (calls (snd (generate_with_retry scripted [80] 256 0 10 [110]
          \<lparr>outside = [[], [32, 10], [1055, 1088, 1080, 1074, 1077, 1090, 10, 88]], calls = [], stdout = []\<rparr>))) = 3
   \<and> fst (generate_with_retry scripted [80] 256 0 3 [110] \<lparr>outside = [], calls = [], stdout = []\<rparr>)
     = no_response
   \<and> length (calls (snd (generate_with_retry scripted [80] 256 0 3 [110]
          \<lparr>outside = [], calls = [], stdout = []\<rparr>))) = 3"
  using generate_with_retry_first_nonempty[OF prod.collapse[symmetric],
          of scripted "[80]" 256 0 10 "[110]"
          "\<lparr>outside = [[], [32, 10], [1055, 1088, 1080, 1074, 1077, 1090, 10, 88]], calls = [], stdout = []\<rparr>"]
  by (simp add: generate_with_retry_def upt_rec scripted_generate_response emit_world
        strip_def lstrip_def rstrip_def first_line_def is_space_def Let_def)

section \<open>Properties of the translate-and-edit pipeline\<close>

text \<open>
  Claim C10. \<^verbatim>\<open>run_translate\<close> strips the line before anything else sees it, so the
  line and its stripped form give the same result, and the same calls and output, for
  every context, every generator and every state of the outside.
\<close>
theorem run_translate_strip_invariant:
  "run_translate pf tw (strip line) ctx w = run_translate pf tw line ctx w"
  by (simp add: run_translate_def strip_idem)

lemma stage_spec:
  assumes "generate_with_retry pf prompt mt temp 10 name w = (r, w')"
  shows "\<exists>new. calls w' = calls w @ new \<and> new \<noteq> [] \<and> length new \<le> 10 \<and>
           fst (hd new) = prompt \<and> (\<forall>c \<in> set new. suffix prompt (fst c)) \<and>
           r = (if strip (first_line (snd (last new))) \<noteq> []
                then strip (first_line (snd (last new))) else no_response) \<and>
           stdout w' = stdout w @ map (\<lambda>c. PrintResp name (strip (first_line (snd c)))) new"
proof -
  from assms have "retry_loop pf mt temp name [0..<nat 10] prompt w = (r, w')"
    by (simp add: generate_with_retry_def)
  from retry_loop_spec[OF this] obtain new where n:
    "calls w' = calls w @ new" "length new \<le> length [0..<nat 10]"
    "if new \<noteq> [] \<and> strip (first_line (snd (last new))) \<noteq> []
          then r = strip (first_line (snd (last new)))
          else r = no_response \<and> length new = length [0..<nat 10]"
    "[0..<nat 10] \<noteq> [] \<longrightarrow> new \<noteq> [] \<and> fst (hd new) = prompt"
    "\<forall>c \<in> set new. suffix prompt (fst c)"
    "stdout w' = stdout w @ map (\<lambda>c. PrintResp name (strip (first_line (snd c)))) new"
    by blast
  have ne: "new \<noteq> []" "fst (hd new) = prompt" using n(4) by simp_all
  have "r = (if strip (first_line (snd (last new))) \<noteq> []
                then strip (first_line (snd (last new))) else no_response)"
    using n(3) ne by (auto split: if_splits)
  then show ?thesis using n(1,2,5,6) ne by (intro exI[of _ new]) simp
qed

lemma read_clock_world:
  "read_clock pf w = (t, w1) \<Longrightarrow> calls w1 = calls w \<and> stdout w1 = stdout w"
  by (auto simp: read_clock_def split: prod.splits)




lemma scripted_read_clock:
  "read_clock scripted \<lparr>outside = x, calls = cs, stdout = out\<rparr> = (0, \<lparr>outside = x, calls = cs, stdout = out\<rparr>)"
  by (simp add: read_clock_def scripted_def)


lemma print_prompt_stdout:
  "stdout (print_prompt tw p l w) =
     stdout w @ (if show_prompt tw then [PrintPromptBegin l, PrintPromptBody p, PrintPromptEnd l] else [])"
  by (simp add: print_prompt_def emit_def)

lemma emit_stdout: "stdout (emit e w) = stdout w @ [e]"
  by (simp add: emit_def)

lemma stage_single_line:
  assumes "generate_with_retry pf prompt mt temp 10 name w = (r, w')"
  shows "10 \<notin> set r"
proof -
  from stage_spec[OF assms] obtain new where
    n: "calls w' = calls w @ new" "new \<noteq> []" "length new \<le> 10"
    "fst (hd new) = prompt" "\<forall>c \<in> set new. suffix prompt (fst c)"
    "r = (if strip (first_line (snd (last new))) \<noteq> []
                then strip (first_line (snd (last new))) else no_response)"
    "stdout w' = stdout w @ map (\<lambda>c. PrintResp name (strip (first_line (snd c)))) new"
    by blast
  from n(6) show ?thesis
    using response_single_line[of "snd (last new)"] no_response_single_line by (simp split: if_splits)
qed

lemma run_translate_observed:
  assumes rt: "run_translate pf tw line ctx w = (r, w')"
    and P: "\<And>n x. \<not> P (PrintResp n x)" "\<And>x. \<not> P (PrintPromptBegin x)"
      "\<And>x. \<not> P (PrintPromptBody x)" "\<And>x. \<not> P (PrintPromptEnd x)"
      "\<And>x. \<not> P (PrintLineDone x)" "\<And>x. P (PrintOriginal x)"
  shows "filter P (stdout w') = filter P (stdout w) @ [PrintOriginal (strip line)]"
    and "10 \<notin> set r"
proof -
  obtain start w1 where c1: "read_clock pf w = (start, w1)" by (cases "read_clock pf w")
  let ?l = "strip line"
  let ?tp = "translate_prompt ctx ?l"
  let ?wa = "print_prompt tw ?tp label_translate_prompt (emit (PrintOriginal ?l) w1)"
  obtain t wb where g1:
    "generate_with_retry pf ?tp (max_tokens tw) (temperature tw) 10 resp_translation ?wa = (t, wb)"
    by (cases "generate_with_retry pf ?tp (max_tokens tw) (temperature tw) 10 resp_translation ?wa")
  let ?ep = "edit_prompt t"
  let ?wc = "print_prompt tw ?ep label_edit_prompt wb"
  obtain e wd where g2:
    "generate_with_retry pf ?ep (max_tokens tw) (temperature tw) 10 resp_edit ?wc = (e, wd)"
    by (cases "generate_with_retry pf ?ep (max_tokens tw) (temperature tw) 10 resp_edit ?wc")
  obtain now w3 where c2: "read_clock pf wd = (now, w3)" by (cases "read_clock pf wd")
  have res: "r = e" "w' = emit (PrintLineDone (fsub pf now start)) w3"
    using rt c1 g1 g2 c2
    by (auto simp: run_translate_def translate_with_llm_def edit_with_llm_def Let_def)
  show "10 \<notin> set r" using stage_single_line[OF g2] res(1) by simp
  from stage_spec[OF g1] obtain tcalls where
    tcs: "calls wb = calls ?wa @ tcalls" "tcalls \<noteq> []" "length tcalls \<le> 10"
    "fst (hd tcalls) = ?tp" "\<forall>c \<in> set tcalls. suffix ?tp (fst c)"
    "t = (if strip (first_line (snd (last tcalls))) \<noteq> []
                then strip (first_line (snd (last tcalls))) else no_response)"
    "stdout wb = stdout ?wa @ map (\<lambda>c. PrintResp resp_translation (strip (first_line (snd c)))) tcalls"
    by blast
  note tc = tcs(7)
  from stage_spec[OF g2] obtain ecalls where
    ecs: "calls wd = calls ?wc @ ecalls" "ecalls \<noteq> []" "length ecalls \<le> 10"
    "fst (hd ecalls) = ?ep" "\<forall>c \<in> set ecalls. suffix ?ep (fst c)"
    "e = (if strip (first_line (snd (last ecalls))) \<noteq> []
                then strip (first_line (snd (last ecalls))) else no_response)"
    "stdout wd = stdout ?wc @ map (\<lambda>c. PrintResp resp_edit (strip (first_line (snd c)))) ecalls"
    by blast
  note ec = ecs(7)
  have f1: "filter P (map (\<lambda>c. PrintResp n (strip (first_line (snd c)))) cs) = []" for n cs
    by (induction cs) (simp_all add: P)
  have fa: "filter P (stdout ?wa) = filter P (stdout w) @ [PrintOriginal ?l]"
    using read_clock_world[OF c1] by (simp add: print_prompt_stdout emit_stdout P)
  have fb: "filter P (stdout wb) = filter P (stdout w) @ [PrintOriginal ?l]"
    unfolding tc by (simp add: fa f1)
  have fc: "filter P (stdout ?wc) = filter P (stdout w) @ [PrintOriginal ?l]"
    by (simp add: print_prompt_stdout fb P)
  have fd: "filter P (stdout wd) = filter P (stdout w) @ [PrintOriginal ?l]"
    unfolding ec by (simp add: fc f1)
  show "filter P (stdout w') = filter P (stdout w) @ [PrintOriginal (strip line)]"
    using res(2) read_clock_world[OF c2] fd by (simp add: emit_stdout P)
qed

section \<open>Properties of the orchestrator\<close>

lemma translate_line_spec:
  assumes fd: "file_data fw = Some fd" "all_lines_len fd = int (length (all_lines fd))"
    and k: "k < length (all_lines fd)"
  shows "\<exists>ctx w1 elapsed.
           translate_line pf fw (int k) line w = Inr (run_translate pf (translate fw) line ctx w1) \<and>
           stdout w1 = stdout w @
             [PrintProgress (int k) (int (length (all_lines fd)))
                ((int k * 100) div int (length (all_lines fd)))
                (fdiv pf elapsed (float_of_int pf 60))
                (fdiv pf (if k > 0
                          then fsub pf (fmul pf (fdiv pf elapsed (float_of_int pf (int k)))
                                          (float_of_int pf (int (length (all_lines fd))))) elapsed
                          else float_of_int pf 0)
                   (float_of_int pf 60))]"
proof -
  obtain now w0 where c: "read_clock pf w = (now, w0)" by (cases "read_clock pf w")
  let ?el = "fsub pf now (start_file_translation fd)"
  let ?ev = "PrintProgress (int k) (int (length (all_lines fd)))
                ((int k * 100) div int (length (all_lines fd)))
                (fdiv pf ?el (float_of_int pf 60))
                (fdiv pf (if k > 0
                          then fsub pf (fmul pf (fdiv pf ?el (float_of_int pf (int k)))
                                          (float_of_int pf (int (length (all_lines fd))))) ?el
                          else float_of_int pf 0)
                   (float_of_int pf 60))"
  have pp: "print_progress pf fw (int k) w = Inr (emit ?ev w0)"
    using fd k c by (auto simp: print_progress_def Let_def)
  have "0 \<le> int k" "int k < int (length (all_lines fd))" using k by simp_all
  from build_context_in_range[OF this] obtain s where
    bc: "build_context (kag fw) (all_lines fd) (int k) = Inr s" by blast
  let ?ctx = "if kag_enabled fw then s else []"
  have "translate_line pf fw (int k) line w = Inr (run_translate pf (translate fw) line ?ctx (emit ?ev w0))"
    using pp fd bc by (simp add: translate_line_def)
  moreover have "stdout (emit ?ev w0) = stdout w @ [?ev]"
    using read_clock_world[OF c] by (simp add: emit_stdout)
  ultimately show ?thesis by blast
qed

lemma segregate_loop_spec:
  fixes pf :: "('x, 'f) platform" and fd :: "'f file_data"
  fixes ev line_ok
  defines "ev \<equiv> \<lambda>i elapsed.
             [PrintProgress (int i) (int (length (all_lines fd)))
                ((int i * 100) div int (length (all_lines fd)))
                (fdiv pf elapsed (float_of_int pf 60))
                (fdiv pf (if i > 0
                          then fsub pf (fmul pf (fdiv pf elapsed (float_of_int pf (int i)))
                                          (float_of_int pf (int (length (all_lines fd))))) elapsed
                          else float_of_int pf 0)
                   (float_of_int pf 60)),
              PrintOriginal (strip (all_lines fd ! i))]"
    and "line_ok \<equiv> \<lambda>tw l out. if strip l = [] then out = l
             else (\<exists>ctx (wi :: ('x, 'f) world). out = fst (run_translate pf tw l ctx wi) @ [10] \<and>
                            10 \<notin> set (fst (run_translate pf tw l ctx wi)))"
  assumes fd: "file_data fw = Some fd" "all_lines_len fd = int (length (all_lines fd))"
    and P: "\<And>n x. \<not> P (PrintResp n x)" "\<And>x. \<not> P (PrintPromptBegin x)"
      "\<And>x. \<not> P (PrintPromptBody x)" "\<And>x. \<not> P (PrintPromptEnd x)"
      "\<And>x. \<not> P (PrintLineDone x)" "\<And>x. P (PrintOriginal x)"
      "\<And>a b c d e. P (PrintProgress a b c d e)"
    and xs: "drop k (all_lines fd) = xs"
  shows "\<exists>out w' els.
           segregate_loop pf fw (enumerate k xs) acc w = Inr (acc @ out, w') \<and>
           list_all2 (line_ok (translate fw)) xs out \<and>
           length els = length [i \<leftarrow> [k..<length (all_lines fd)]. strip (all_lines fd ! i) \<noteq> []] \<and>
           filter P (stdout w') = filter P (stdout w) @
             concat (map2 ev [i \<leftarrow> [k..<length (all_lines fd)]. strip (all_lines fd ! i) \<noteq> []] els)"
  using xs
proof (induction xs arbitrary: k acc w)
  case Nil
  then have "length (all_lines fd) \<le> k" by simp
  then show ?case by (intro exI[of _ "[]"]) simp
next
  case (Cons x xs)
  let ?all = "all_lines fd"
  have k: "k < length ?all" using Cons.prems by (cases "k < length ?all") auto
  have x: "?all ! k = x" and rest: "drop (Suc k) ?all = xs"
    using Cons.prems k by (simp_all add: Cons_nth_drop_Suc[symmetric])
  have upt: "[k..<length ?all] = k # [Suc k..<length ?all]"
    using k by (simp add: upt_conv_Cons)
  show ?case
  proof (cases "strip x = []")
    case True
    from Cons.IH[OF rest, of "acc @ [x]" w] obtain out w' els where ih:
      "segregate_loop pf fw (enumerate (Suc k) xs) (acc @ [x]) w = Inr ((acc @ [x]) @ out, w')"
      "list_all2 (line_ok (translate fw)) xs out"
      "length els = length [i \<leftarrow> [Suc k..<length ?all]. strip (?all ! i) \<noteq> []]"
      "filter P (stdout w') = filter P (stdout w) @
             concat (map2 ev [i \<leftarrow> [Suc k..<length ?all]. strip (?all ! i) \<noteq> []] els)"
      by blast
    have "line_ok (translate fw) x x" using True by (simp add: line_ok_def)
    then show ?thesis
      using ih True x upt
      by (intro exI[of _ "x # out"] exI[of _ w'] exI[of _ els]) simp
  next
    case False
    from translate_line_spec[OF fd k, of pf x w] obtain ctx w1 elapsed where tl:
      "translate_line pf fw (int k) x w = Inr (run_translate pf (translate fw) x ctx w1)"
      "stdout w1 = stdout w @ [hd (ev k elapsed)]"
      unfolding ev_def by auto
    obtain r w2 where rt: "run_translate pf (translate fw) x ctx w1 = (r, w2)"
      by (cases "run_translate pf (translate fw) x ctx w1")
    note obs = run_translate_observed[OF rt P(1-6)]
    from Cons.IH[OF rest, of "acc @ [r @ [10]]" w2] obtain out w' els where ih:
      "segregate_loop pf fw (enumerate (Suc k) xs) (acc @ [r @ [10]]) w2 = Inr ((acc @ [r @ [10]]) @ out, w')"
      "list_all2 (line_ok (translate fw)) xs out"
      "length els = length [i \<leftarrow> [Suc k..<length ?all]. strip (?all ! i) \<noteq> []]"
      "filter P (stdout w') = filter P (stdout w2) @
             concat (map2 ev [i \<leftarrow> [Suc k..<length ?all]. strip (?all ! i) \<noteq> []] els)"
      by blast
    have ok: "line_ok (translate fw) x (r @ [10])"
      using False rt obs(2) unfolding line_ok_def
      by (auto intro!: exI[of _ ctx] exI[of _ w1])
    have seg: "segregate_loop pf fw (enumerate k (x # xs)) acc w = Inr (acc @ (r @ [10]) # out, w')"
      using False tl(1) rt ih(1) by simp
    have out2: "filter P (stdout w2) = filter P (stdout w) @ ev k elapsed"
      using obs(1) tl(2) x by (simp add: ev_def P)
    have flt: "[i \<leftarrow> [k..<length ?all]. strip (?all ! i) \<noteq> []]
                = k # [i \<leftarrow> [Suc k..<length ?all]. strip (?all ! i) \<noteq> []]"
      using False x upt by simp
    show ?thesis
      using seg ok ih(2,3,4) out2 flt
      by (intro exI[of _ "(r @ [10]) # out"] exI[of _ w'] exI[of _ "elapsed # els"]) simp
  qed
qed

lemma translate_one_file_spec:
  fixes pf :: "('x, 'f) platform"
  assumes P: "\<And>n x. \<not> P (PrintResp n x)" "\<And>x. \<not> P (PrintPromptBegin x)"
      "\<And>x. \<not> P (PrintPromptBody x)" "\<And>x. \<not> P (PrintPromptEnd x)"
      "\<And>x. \<not> P (PrintLineDone x)" "\<And>x. P (PrintOriginal x)"
      "\<And>a b c d e. P (PrintProgress a b c d e)"
      "\<not> P PrintFileDone" "\<And>x. \<not> P (PrintFileDoneIn x)"
  shows "\<exists>out fw' w' els.
           translate_one_file pf fw ls w = Inr (out, fw', w') \<and>
           list_all2 (\<lambda>l out. if strip l = [] then out = l
             else (\<exists>ctx (wi :: ('x, 'f) world). out = fst (run_translate pf (translate fw) l ctx wi) @ [10] \<and>
                            10 \<notin> set (fst (run_translate pf (translate fw) l ctx wi)))) ls out \<and>
           length els = length [i \<leftarrow> [0..<length ls]. strip (ls ! i) \<noteq> []] \<and>
           filter P (stdout w') = filter P (stdout w) @
             concat (map2 (\<lambda>i elapsed.
               [PrintProgress (int i) (int (length ls)) ((int i * 100) div int (length ls))
                (fdiv pf elapsed (float_of_int pf 60))
                (fdiv pf (if i > 0
                          then fsub pf (fmul pf (fdiv pf elapsed (float_of_int pf (int i)))
                                          (float_of_int pf (int (length ls)))) elapsed
                          else float_of_int pf 0)
                   (float_of_int pf 60)),
                PrintOriginal (strip (ls ! i))])
               [i \<leftarrow> [0..<length ls]. strip (ls ! i) \<noteq> []] els)"
proof -
  obtain t0 w0 where c0: "read_clock pf w = (t0, w0)" by (cases "read_clock pf w")
  define fd where "fd = \<lparr>start_file_translation = t0, all_lines = ls, all_lines_len = int (length ls)\<rparr>"
  let ?fw = "fw\<lparr>file_data := Some fd\<rparr>"
  have al: "all_lines fd = ls" by (simp add: fd_def)
  have fd: "file_data ?fw = Some fd" "all_lines_len fd = int (length (all_lines fd))"
    by (simp_all add: fd_def)
  have dr: "drop 0 (all_lines fd) = ls" by (simp add: al)
  have tr: "translate ?fw = translate fw" by simp
  from segregate_loop_spec[OF fd P(1-7) dr, of pf "[]" w0, unfolded al tr] obtain out w1 els where sg:
    "segregate_loop pf ?fw (enumerate 0 ls) [] w0 = Inr (out, w1)"
    "list_all2 (\<lambda>l out. if strip l = [] then out = l
             else (\<exists>ctx (wi :: ('x, 'f) world). out = fst (run_translate pf (translate fw) l ctx wi) @ [10] \<and>
                            10 \<notin> set (fst (run_translate pf (translate fw) l ctx wi)))) ls out"
    "length els = length [i \<leftarrow> [0..<length ls]. strip (ls ! i) \<noteq> []]"
    "filter P (stdout w1) = filter P (stdout w0) @
             concat (map2 (\<lambda>i elapsed.
               [PrintProgress (int i) (int (length ls)) ((int i * 100) div int (length ls))
                (fdiv pf elapsed (float_of_int pf 60))
                (fdiv pf (if i > 0
                          then fsub pf (fmul pf (fdiv pf elapsed (float_of_int pf (int i)))
                                          (float_of_int pf (int (length ls)))) elapsed
                          else float_of_int pf 0)
                   (float_of_int pf 60)),
                PrintOriginal (strip (ls ! i))])
               [i \<leftarrow> [0..<length ls]. strip (ls ! i) \<noteq> []] els)"
    by auto
  obtain t1 w2 where c1: "read_clock pf (emit PrintFileDone w1) = (t1, w2)"
    by (cases "read_clock pf (emit PrintFileDone w1)")
  let ?w' = "emit (PrintFileDoneIn (fdiv pf (fsub pf t1 t0) (float_of_int pf 60))) w2"
  have res: "translate_one_file pf fw ls w = Inr (out, ?fw, ?w')"
    using c0 sg(1) c1 by (simp add: translate_one_file_def segregate_and_translate_lines_def Let_def fd_def)
  have "filter P (stdout ?w') = filter P (stdout w1)"
    using read_clock_world[OF c1] by (simp add: emit_stdout P)
  moreover have "stdout w0 = stdout w" using read_clock_world[OF c0] by simp
  ultimately show ?thesis
    using res sg(2,3,4) by (intro exI[of _ out] exI[of _ ?fw] exI[of _ ?w'] exI[of _ els]) simp
qed

lemma scripted_ops:
  "fsub scripted a b = a - b" "fmul scripted a b = a * b" "fdiv scripted a b = a div b"
  "float_of_int scripted i = i"
  by (simp_all add: scripted_def)

text \<open>
  Claim C1. For every list of input lines, with any generator and whether or not the
  context builder is enabled, \<^verbatim>\<open>translate_one_file\<close> raises nothing and writes a list
  of the same length, in the same order: at each index a whitespace-only line is written
  unchanged, and any other line is replaced by the result of the pipeline on it (for the
  context built for that index, in the state the run has reached), which holds no line
  feed, followed by one line feed.
\<close>
theorem translate_one_file_lines:
  "\<exists>out fw' w'.
     translate_one_file pf fw ls w = Inr (out, fw', w') \<and> length out = length ls \<and>
     (\<forall>i < length ls.
        if strip (ls ! i) = [] then out ! i = ls ! i
        else (\<exists>ctx wi. out ! i = fst (run_translate pf (translate fw) (ls ! i) ctx wi) @ [10] \<and>
                        10 \<notin> set (fst (run_translate pf (translate fw) (ls ! i) ctx wi))))"
proof -
  from translate_one_file_spec[of "\<lambda>e. case e of PrintOriginal x \<Rightarrow> True | PrintProgress a b c d e \<Rightarrow> True | _ \<Rightarrow> False" pf fw ls w]
  obtain out fw' w' where
    r: "translate_one_file pf fw ls w = Inr (out, fw', w')"
    and l: "list_all2 (\<lambda>l out. if strip l = [] then out = l
             else (\<exists>ctx wi. out = fst (run_translate pf (translate fw) l ctx wi) @ [10] \<and>
                            10 \<notin> set (fst (run_translate pf (translate fw) l ctx wi)))) ls out"
    by auto
  have "length out = length ls" using l by (simp add: list_all2_lengthD)
  moreover have "\<forall>i < length ls.
        if strip (ls ! i) = [] then out ! i = ls ! i
        else (\<exists>ctx wi. out ! i = fst (run_translate pf (translate fw) (ls ! i) ctx wi) @ [10] \<and>
                        10 \<notin> set (fst (run_translate pf (translate fw) (ls ! i) ctx wi)))"
    using list_all2_nthD[OF l] by blast
  ultimately show ?thesis using r by blast
qed

theorem translate_one_file_lines_witness:
  "fst (projr (translate_one_file scripted
     \<lparr>kag = \<lparr>window_size = 4, names_map = [], kag_db = []\<rparr>, kag_enabled = True,
      translate = \<lparr>max_tokens = 256, temperature = 0, show_prompt = False\<rparr>, file_data = None\<rparr>
     [[72, 10], [10], [87, 10]]
     \<lparr>outside = [[72, 105], [72, 111], [87, 105], [87, 111]], calls = [], stdout = []\<rparr>)) = [[72, 111, 10], [10], [87, 111, 10]]"
  using translate_one_file_lines[of scripted "\<lparr>kag = \<lparr>window_size = 4, names_map = [], kag_db = []\<rparr>, kag_enabled = True,
      translate = \<lparr>max_tokens = 256, temperature = 0, show_prompt = False\<rparr>, file_data = None\<rparr>" "[[72, 10], [10], [87, 10]]" "\<lparr>outside = [[72, 105], [72, 111], [87, 105], [87, 111]], calls = [], stdout = []\<rparr>"]
  by (simp add: translate_one_file_def segregate_and_translate_lines_def enumerate_eq_zip upt_rec
        translate_line_def print_progress_def build_context_def py_index_def
        run_translate_def translate_with_llm_def edit_with_llm_def print_prompt_def
        generate_with_retry_def scripted_generate_response scripted_read_clock emit_world
        scripted_ops strip_def lstrip_def rstrip_def first_line_def is_space_def Let_def)




end
